theory Spec2Isabelle
  imports Main "HOL-Library.Word"
begin

unbundle bit_operations_syntax

section \<open>Vector registers and the intrinsics used by \<open>lib/x86/adler32_impl.h\<close>\<close>

text \<open>
  A vector register is the list of its lanes, lane 0 first (the least significant lane,
  the byte at the lowest address). The element type follows the C vector type:
  \<open>__m128i\<close> seen as bytes is a list of 16 \<open>u8\<close>, \<open>__v8hi\<close> is 8 lanes of \<open>u16\<close>,
  \<open>__v4si\<close>, \<open>__v8si\<close> and \<open>__v16si\<close> are 4, 8 and 16 lanes of \<open>u32\<close>. Lane arithmetic is
  two's complement and wraps, which is what the instructions do.
\<close>

type_synonym u8 = "8 word"
type_synonym u16 = "16 word"
type_synonym u32 = "32 word"

text \<open>Memory is byte addressed; an address is a natural number.\<close>

type_synonym memory = "nat \<Rightarrow> u8"

text \<open>The GCC vector extension \<open>a + b\<close> and \<open>a * b\<close>: lane by lane.\<close>

definition vadd :: "'a::len word list \<Rightarrow> 'a word list \<Rightarrow> 'a word list" where
  "vadd a b = map2 (+) a b"

definition vmul :: "'a::len word list \<Rightarrow> 'a word list \<Rightarrow> 'a word list" where
  "vmul a b = map2 (*) a b"

text \<open>\<open>_mm_loadu_si128\<close>, and the aligned load \<open>*p\<close> of an \<open>__m128i\<close>: 16 bytes.\<close>

definition mm_loadu_si128 :: "memory \<Rightarrow> nat \<Rightarrow> u8 list" where
  "mm_loadu_si128 m a = map (\<lambda>i. m (a + i)) [0..<16]"

text \<open>\<open>_mm_shuffle_epi32 (a, imm8)\<close>: result lane \<open>i\<close> is lane \<open>imm8[2i+1:2i]\<close> of \<open>a\<close>.\<close>

definition mm_shuffle_epi32 :: "u32 list \<Rightarrow> nat \<Rightarrow> u32 list" where
  "mm_shuffle_epi32 a imm8 =
     [a ! (imm8 mod 4), a ! (imm8 div 4 mod 4), a ! (imm8 div 16 mod 4), a ! (imm8 div 64 mod 4)]"

text \<open>\<open>_mm_cvtsi128_si32\<close>: the lowest 32-bit lane.\<close>

definition mm_cvtsi128_si32 :: "u32 list \<Rightarrow> u32" where
  "mm_cvtsi128_si32 a = a ! 0"

text \<open>\<open>_mm256_extracti128_si256 (v, i)\<close> on 32-bit lanes: lanes \<open>4i .. 4i+3\<close>.\<close>

definition mm256_extracti128_si256 :: "u32 list \<Rightarrow> nat \<Rightarrow> u32 list" where
  "mm256_extracti128_si256 v i = take 4 (drop (4 * i) v)"


text \<open>\<open>_mm256_cvtepu8_epi32\<close>: zero-extends the low 8 bytes of a 128-bit register to
  8 lanes of 32 bits. \<open>_mm512_cvtepu8_epi32\<close>: zero-extends all 16 bytes to 16 lanes.\<close>

definition mm256_cvtepu8_epi32 :: "u8 list \<Rightarrow> u32 list" where
  "mm256_cvtepu8_epi32 x = map ucast (take 8 x)"


text \<open>\<open>_mm_slli_epi32\<close>, \<open>_mm256_slli_epi32\<close>, \<open>_mm512_slli_epi32\<close>: every 32-bit lane
  shifted left.\<close>

definition slli_epi32 :: "u32 list \<Rightarrow> nat \<Rightarrow> u32 list" where
  "slli_epi32 v n = map (push_bit n) v"








section \<open>The horizontal reduction macros\<close>

definition ADLER32_FINISH_VEC_CHUNK_128 :: "u32 \<Rightarrow> u32 \<Rightarrow> u32 list \<Rightarrow> u32 list \<Rightarrow> u32 \<times> u32" where
  "ADLER32_FINISH_VEC_CHUNK_128 s1 s2 v_s1 v_s2 =
     (let s1_fin = v_s1; s2_fin = v_s2;
          s2_fin = vadd s2_fin (mm_shuffle_epi32 s2_fin 0x31);
          s1_fin = vadd s1_fin (mm_shuffle_epi32 s1_fin 0x02);
          s2_fin = vadd s2_fin (mm_shuffle_epi32 s2_fin 0x02)
      in (s1 + mm_cvtsi128_si32 s1_fin, s2 + mm_cvtsi128_si32 s2_fin))"

definition ADLER32_FINISH_VEC_CHUNK_256 :: "u32 \<Rightarrow> u32 \<Rightarrow> u32 list \<Rightarrow> u32 list \<Rightarrow> u32 \<times> u32" where
  "ADLER32_FINISH_VEC_CHUNK_256 s1 s2 v_s1 v_s2 =
     (let s1_128bit = vadd (mm256_extracti128_si256 v_s1 0) (mm256_extracti128_si256 v_s1 1);
          s2_128bit = vadd (mm256_extracti128_si256 v_s2 0) (mm256_extracti128_si256 v_s2 1)
      in ADLER32_FINISH_VEC_CHUNK_128 s1 s2 s1_128bit s2_128bit)"


text \<open>The even-numbered lanes of a vector (lanes 0, 2, 4, ...).\<close>

fun even_lanes :: "'a list \<Rightarrow> 'a list" where
  "even_lanes (x # y # r) = x # even_lanes r"
| "even_lanes r = r"


section \<open>The chunk kernels\<close>

text \<open>
  A \<open>do { body } while (cond)\<close> loop over a state: the body runs, then the test decides
  whether it runs again. A loop that never leaves has no result (\<open>None\<close>).
\<close>

partial_function (option) do_while :: "('s \<Rightarrow> 's) \<Rightarrow> ('s \<Rightarrow> bool) \<Rightarrow> 's \<Rightarrow> 's option" where
  [code]: "do_while body cond s =
     (if cond (body s) then do_while body cond (body s) else Some (body s))"


subsection \<open>AVX-512BW and AVX2: eight vectors of 32-bit counters\<close>

record avx_acc =
  v_s1_a :: "u32 list"
  v_s1_b :: "u32 list"
  v_s1_c :: "u32 list"
  v_s1_d :: "u32 list"
  v_s2_a :: "u32 list"
  v_s2_b :: "u32 list"
  v_s2_c :: "u32 list"
  v_s2_d :: "u32 list"

text \<open>All counters start as \<open>zeroes\<close>, with \<open>n\<close> lanes of 32 bits.\<close>

definition avx_zeroes :: "nat \<Rightarrow> avx_acc" where
  "avx_zeroes n =
     \<lparr>v_s1_a = replicate n 0, v_s1_b = replicate n 0, v_s1_c = replicate n 0,
      v_s1_d = replicate n 0, v_s2_a = replicate n 0, v_s2_b = replicate n 0,
      v_s2_c = replicate n 0, v_s2_d = replicate n 0\<rparr>"








text \<open>
  One pass of the loop of \<open>adler32_avx2_chunk\<close>: four 16-byte loads at \<open>p\<close>, \<open>p + 8\<close>,
  \<open>p + 16\<close> and \<open>p + 24\<close>, of which the conversion keeps the low 8 bytes; \<open>++p\<close> moves \<open>p\<close>
  by one \<open>__m256i\<close>, 32 bytes.
\<close>

definition adler32_avx2_body :: "memory \<Rightarrow> nat \<times> avx_acc \<Rightarrow> nat \<times> avx_acc" where
  "adler32_avx2_body m = (\<lambda>(p, st).
     let bytes0 = mm256_cvtepu8_epi32 (mm_loadu_si128 m (p + 0));
         bytes1 = mm256_cvtepu8_epi32 (mm_loadu_si128 m (p + 8));
         bytes2 = mm256_cvtepu8_epi32 (mm_loadu_si128 m (p + 16));
         bytes3 = mm256_cvtepu8_epi32 (mm_loadu_si128 m (p + 24));
         st = st\<lparr>v_s2_a := vadd (v_s2_a st) (v_s1_a st)\<rparr>;
         st = st\<lparr>v_s2_b := vadd (v_s2_b st) (v_s1_b st)\<rparr>;
         st = st\<lparr>v_s2_c := vadd (v_s2_c st) (v_s1_c st)\<rparr>;
         st = st\<lparr>v_s2_d := vadd (v_s2_d st) (v_s1_d st)\<rparr>;
         st = st\<lparr>v_s1_a := vadd (v_s1_a st) bytes0\<rparr>;
         st = st\<lparr>v_s1_b := vadd (v_s1_b st) bytes1\<rparr>;
         st = st\<lparr>v_s1_c := vadd (v_s1_c st) bytes2\<rparr>;
         st = st\<lparr>v_s1_d := vadd (v_s1_d st) bytes3\<rparr>
     in (p + 32, st))"

definition avx2_mults_a :: "u32 list" where
  "avx2_mults_a = [32, 31, 30, 29, 28, 27, 26, 25]"

definition avx2_mults_b :: "u32 list" where
  "avx2_mults_b = [24, 23, 22, 21, 20, 19, 18, 17]"

definition avx2_mults_c :: "u32 list" where
  "avx2_mults_c = [16, 15, 14, 13, 12, 11, 10, 9]"

definition avx2_mults_d :: "u32 list" where
  "avx2_mults_d = [8, 7, 6, 5, 4, 3, 2, 1]"

definition adler32_avx2_finish :: "u32 \<Rightarrow> u32 \<Rightarrow> avx_acc \<Rightarrow> u32 \<times> u32" where
  "adler32_avx2_finish s1 s2 st =
     (let st = st\<lparr>v_s2_a := vadd (v_s2_a st) (v_s2_c st)\<rparr>;
          st = st\<lparr>v_s2_b := vadd (v_s2_b st) (v_s2_d st)\<rparr>;
          st = st\<lparr>v_s2_a := vadd (v_s2_a st) (v_s2_b st)\<rparr>;
          st = st\<lparr>v_s2_a := slli_epi32 (v_s2_a st) 5\<rparr>;
          st = st\<lparr>v_s2_a := vadd (v_s2_a st) (vmul (v_s1_a st) avx2_mults_a)\<rparr>;
          st = st\<lparr>v_s2_a := vadd (v_s2_a st) (vmul (v_s1_b st) avx2_mults_b)\<rparr>;
          st = st\<lparr>v_s2_a := vadd (v_s2_a st) (vmul (v_s1_c st) avx2_mults_c)\<rparr>;
          st = st\<lparr>v_s2_a := vadd (v_s2_a st) (vmul (v_s1_d st) avx2_mults_d)\<rparr>;
          st = st\<lparr>v_s1_a := vadd (v_s1_a st) (v_s1_c st)\<rparr>;
          st = st\<lparr>v_s1_b := vadd (v_s1_b st) (v_s1_d st)\<rparr>;
          st = st\<lparr>v_s1_a := vadd (v_s1_a st) (v_s1_b st)\<rparr>
      in ADLER32_FINISH_VEC_CHUNK_256 s1 s2 (v_s1_a st) (v_s2_a st))"

definition adler32_avx2_chunk ::
    "memory \<Rightarrow> nat \<Rightarrow> nat \<Rightarrow> u32 \<Rightarrow> u32 \<Rightarrow> (u32 \<times> u32) option" where
  "adler32_avx2_chunk m p e s1 s2 =
     (case do_while (adler32_avx2_body m) (\<lambda>(p, st). p \<noteq> e) (p, avx_zeroes 8) of
        None \<Rightarrow> None
      | Some (p', st) \<Rightarrow> Some (adler32_avx2_finish s1 s2 st))"

subsection \<open>SSE2: 32-bit counters and thirty-two 16-bit byte sums\<close>

record sse2_acc =
  v_s1 :: "u32 list"
  v_s2 :: "u32 list"
  v_byte_sums_a :: "u16 list"
  v_byte_sums_b :: "u16 list"
  v_byte_sums_c :: "u16 list"
  v_byte_sums_d :: "u16 list"









subsection \<open>The kernels' constants\<close>

text \<open>The three entry points \<open>FUNCNAME\<close>, as the values a function pointer can take.\<close>

datatype adler32_func = adler32_avx512bw | adler32_avx2 | adler32_sse2





subsection \<open>What a chunk should add to the counters\<close>

text \<open>The bytes of the chunk \<open>[p, end)\<close>.\<close>

definition chunk_bytes :: "memory \<Rightarrow> nat \<Rightarrow> nat \<Rightarrow> u8 list" where
  "chunk_bytes m p e = map m [p..<e]"

text \<open>The sum of the bytes, and the sum in which the byte at position \<open>j\<close> of \<open>n\<close> counts
  \<open>n - j\<close> times.\<close>

definition byte_sum :: "u8 list \<Rightarrow> u32" where
  "byte_sum bs = (\<Sum>b\<leftarrow>bs. ucast b)"

definition weighted_sum :: "u8 list \<Rightarrow> u32" where
  "weighted_sum bs = (\<Sum>j\<leftarrow>[0..<length bs]. of_nat (length bs - j) * ucast (bs ! j))"

text \<open>Modelled from the spec: the scalar Adler-32 loop, which is not in this header. For
  each byte, \<open>s1\<close> gains the byte and then \<open>s2\<close> gains the new \<open>s1\<close>; no reduction modulo
  65521.\<close>

fun adler32_scalar :: "u32 \<times> u32 \<Rightarrow> u8 list \<Rightarrow> u32 \<times> u32" where
  "adler32_scalar (s1, s2) [] = (s1, s2)"
| "adler32_scalar (s1, s2) (b # bs) = adler32_scalar (s1 + ucast b, s2 + (s1 + ucast b)) bs"

section \<open>The dispatcher\<close>

text \<open>Which of the \<open>DISPATCH_*\<close> macros the build defines.\<close>

record dispatch_config =
  DISPATCH_AVX512BW :: bool
  DISPATCH_AVX2 :: bool
  DISPATCH_SSE2 :: bool

text \<open>The feature masks of \<open>cpu_features.h\<close>, which is not part of this header: they are
  parameters.\<close>

record cpu_feature_masks =
  X86_CPU_FEATURE_AVX512BW :: u32
  X86_CPU_FEATURE_AVX2 :: u32
  X86_CPU_FEATURE_SSE2 :: u32

text \<open>\<open>arch_select_adler32_func\<close>, with the value of \<open>get_cpu_features()\<close> as the argument
  \<open>features\<close>; \<open>None\<close> is \<open>NULL\<close>. A test under an \<open>#ifdef\<close> whose macro is not defined is
  not there.\<close>

definition arch_select_adler32_func ::
    "dispatch_config \<Rightarrow> cpu_feature_masks \<Rightarrow> u32 \<Rightarrow> adler32_func option" where
  "arch_select_adler32_func cfg msk features =
     (if DISPATCH_AVX512BW cfg \<and> features AND X86_CPU_FEATURE_AVX512BW msk \<noteq> 0
        then Some adler32_avx512bw
      else if DISPATCH_AVX2 cfg \<and> features AND X86_CPU_FEATURE_AVX2 msk \<noteq> 0
        then Some adler32_avx2
      else if DISPATCH_SSE2 cfg \<and> features AND X86_CPU_FEATURE_SSE2 msk \<noteq> 0
        then Some adler32_sse2
      else None)"

text \<open>The order of capability: AVX-512BW above AVX2 above SSE2.\<close>

fun capability_rank :: "adler32_func \<Rightarrow> nat" where
  "capability_rank adler32_avx512bw = 2"
| "capability_rank adler32_avx2 = 1"
| "capability_rank adler32_sse2 = 0"

fun compiled_in :: "dispatch_config \<Rightarrow> adler32_func \<Rightarrow> bool" where
  "compiled_in cfg adler32_avx512bw = DISPATCH_AVX512BW cfg"
| "compiled_in cfg adler32_avx2 = DISPATCH_AVX2 cfg"
| "compiled_in cfg adler32_sse2 = DISPATCH_SSE2 cfg"

fun reported_present :: "cpu_feature_masks \<Rightarrow> u32 \<Rightarrow> adler32_func \<Rightarrow> bool" where
  "reported_present msk features adler32_avx512bw = (features AND X86_CPU_FEATURE_AVX512BW msk \<noteq> 0)"
| "reported_present msk features adler32_avx2 = (features AND X86_CPU_FEATURE_AVX2 msk \<noteq> 0)"
| "reported_present msk features adler32_sse2 = (features AND X86_CPU_FEATURE_SSE2 msk \<noteq> 0)"


section \<open>What the counters hold during a chunk\<close>

text \<open>The AVX kernels: every vector has \<open>n\<close> lanes; the sum of all \<open>s1\<close> lanes, of all
  \<open>s2\<close> lanes, and of the \<open>s1\<close> lanes times the kernel's multipliers.\<close>

definition avx_lanes :: "nat \<Rightarrow> avx_acc \<Rightarrow> bool" where
  "avx_lanes n st \<longleftrightarrow>
     length (v_s1_a st) = n \<and> length (v_s1_b st) = n \<and> length (v_s1_c st) = n \<and>
     length (v_s1_d st) = n \<and> length (v_s2_a st) = n \<and> length (v_s2_b st) = n \<and>
     length (v_s2_c st) = n \<and> length (v_s2_d st) = n"

definition avx_s1_total :: "avx_acc \<Rightarrow> u32" where
  "avx_s1_total st =
     sum_list (v_s1_a st) + sum_list (v_s1_b st) + sum_list (v_s1_c st) + sum_list (v_s1_d st)"

definition avx_s2_total :: "avx_acc \<Rightarrow> u32" where
  "avx_s2_total st =
     sum_list (v_s2_a st) + sum_list (v_s2_b st) + sum_list (v_s2_c st) + sum_list (v_s2_d st)"

definition avx2_weighted :: "avx_acc \<Rightarrow> u32" where
  "avx2_weighted st =
     sum_list (vmul (v_s1_a st) avx2_mults_a) + sum_list (vmul (v_s1_b st) avx2_mults_b) +
     sum_list (vmul (v_s1_c st) avx2_mults_c) + sum_list (vmul (v_s1_d st) avx2_mults_d)"





section \<open>Facts about lists of lanes\<close>

lemma length4E: "length v = 4 \<Longrightarrow> \<exists>a b c d. v = [a, b, c, d]"
  by (auto simp: eval_nat_numeral length_Suc_conv)

lemma length8E:
  "length v = 8 \<Longrightarrow> \<exists>a0 a1 a2 a3 a4 a5 a6 a7. v = [a0, a1, a2, a3, a4, a5, a6, a7]"
  by (auto simp: eval_nat_numeral length_Suc_conv)


section \<open>The loop\<close>

text \<open>If the test first fails after the \<open>k\<close>-th pass, the loop returns the state after
  \<open>k\<close> passes of the body.\<close>

lemma do_while_exit:
  "0 < k \<Longrightarrow> \<not> cond ((body ^^ k) s) \<Longrightarrow> (\<And>i. 0 < i \<Longrightarrow> i < k \<Longrightarrow> cond ((body ^^ i) s))
   \<Longrightarrow> do_while body cond s = Some ((body ^^ k) s)"
proof (induction k arbitrary: s)
  case 0
  then show ?case by simp
next
  case (Suc k)
  show ?case
  proof (cases "k = 0")
    case True
    with Suc.prems(2) have "\<not> cond (body s)" by simp
    then show ?thesis using True by (subst do_while.simps) simp
  next
    case False
    then have c1: "cond (body s)" using Suc.prems(3)[of 1] by simp
    have "do_while body cond (body s) = Some ((body ^^ k) (body s))"
    proof (rule Suc.IH)
      show "0 < k" using False by simp
      show "\<not> cond ((body ^^ k) (body s))" using Suc.prems(2) by (simp add: funpow_swap1)
      fix i assume "0 < i" "i < k"
      then show "cond ((body ^^ i) (body s))"
        using Suc.prems(3)[of "Suc i"] by (simp add: funpow_swap1)
    qed
    then show ?thesis using c1 by (subst do_while.simps) (simp add: funpow_swap1)
  qed
qed

text \<open>A result of the loop is the state after some positive number of passes, and the test
  fails there.\<close>

lemma do_while_Some_exit:
  assumes "do_while body cond s = Some y"
  shows "\<exists>k>0. y = (body ^^ k) s \<and> \<not> cond y"
proof (rule do_while.raw_induct[where P = "\<lambda>b c s y. \<exists>k>0. y = (b ^^ k) s \<and> \<not> c y", OF _ assms])
  fix dw :: "('a \<Rightarrow> 'a) \<Rightarrow> ('a \<Rightarrow> bool) \<Rightarrow> 'a \<Rightarrow> 'a option" and b c s y
  assume IH: "\<And>b c s y. dw b c s = Some y \<Longrightarrow> \<exists>k>0. y = (b ^^ k) s \<and> \<not> c y"
    and eq: "(if c (b s) then dw b c (b s) else Some (b s)) = Some y"
  show "\<exists>k>0. y = (b ^^ k) s \<and> \<not> c y"
  proof (cases "c (b s)")
    case True
    with eq have "dw b c (b s) = Some y" by simp
    from IH[OF this] obtain k where "k > 0" "y = (b ^^ k) (b s)" "\<not> c y" by blast
    then show ?thesis by (intro exI[of _ "Suc k"]) (simp add: funpow_swap1)
  next
    case False
    with eq have "y = b s" by simp
    with False show ?thesis by (intro exI[of _ 1]) simp
  qed
qed

lemma do_while_never:
  assumes "\<And>i. 0 < i \<Longrightarrow> cond ((body ^^ i) s)"
  shows "do_while body cond s = None"
proof (cases "do_while body cond s")
  case None then show ?thesis .
next
  case (Some y)
  from do_while_Some_exit[OF this] assms show ?thesis by auto
qed

section \<open>Sums over the bytes of a chunk\<close>

lemma byte_sum_append: "byte_sum (xs @ ys) = byte_sum xs + byte_sum ys"
  by (simp add: byte_sum_def)

lemma byte_sum_Cons: "byte_sum (x # xs) = ucast x + byte_sum xs"
  by (simp add: byte_sum_def)

lemma byte_sum_Nil: "byte_sum [] = 0"
  by (simp add: byte_sum_def)

lemma weighted_sum_Nil: "weighted_sum [] = 0"
  by (simp add: weighted_sum_def)

lemma weighted_sum_Cons:
  "weighted_sum (x # xs) = of_nat (Suc (length xs)) * ucast x + weighted_sum xs"
proof -
  have "[0..<Suc (length xs)] = 0 # map Suc [0..<length xs]"
    by (simp add: upt_conv_Cons map_Suc_upt del: upt_Suc)
  then show ?thesis
    by (simp add: weighted_sum_def comp_def del: upt_Suc)
qed

lemma weighted_sum_append:
  "weighted_sum (xs @ ys) = weighted_sum xs + of_nat (length ys) * byte_sum xs + weighted_sum ys"
  by (induction xs) (simp_all add: weighted_sum_Cons weighted_sum_Nil byte_sum_Cons byte_sum_Nil algebra_simps)

lemma adler32_scalar_closed:
  "adler32_scalar (s1, s2) bs = (s1 + byte_sum bs, s2 + of_nat (length bs) * s1 + weighted_sum bs)"
  by (induction bs arbitrary: s1 s2) (simp_all add: weighted_sum_Cons weighted_sum_Nil byte_sum_Cons byte_sum_Nil algebra_simps)

lemma chunk_bytes_split:
  "chunk_bytes m p (p + a + b) = chunk_bytes m p (p + a) @ chunk_bytes m (p + a) (p + a + b)"
  by (simp add: chunk_bytes_def upt_add_eq_append[of p "p + a" b])

lemma length_chunk_bytes: "length (chunk_bytes m p e) = e - p"
  by (simp add: chunk_bytes_def)

lemma chunk_bytes_from_0:
  "chunk_bytes m p (p + n) = map (\<lambda>i. m (p + i)) [0..<n]"
proof -
  have "[p..<p + n] = map (\<lambda>i. i + p) [0..<n]"
    by (simp add: map_add_upt add.commute)
  then show ?thesis
    by (simp add: chunk_bytes_def comp_def add.commute)
qed

lemma upt_16: "[0..<16] = [0,1,2,3,4,5,6,7,8,9,10,11,12,13,14,15]"
  by (simp add: upt_conv_Cons del: upt_Suc)
lemma upt_32: "[0..<32] = [0,1,2,3,4,5,6,7,8,9,10,11,12,13,14,15,16,17,18,19,20,21,22,23,24,25,26,27,28,29,30,31]"
  by (simp add: upt_conv_Cons del: upt_Suc)

lemma length_vadd: "length (vadd a b) = min (length a) (length b)"
  by (simp add: vadd_def)
lemma length_vmul: "length (vmul a b) = min (length a) (length b)"
  by (simp add: vmul_def)
lemma length_slli: "length (slli_epi32 a n) = length a"
  by (simp add: slli_epi32_def)

lemma sum_list_vadd: "length a = length b \<Longrightarrow> sum_list (vadd a b) = sum_list a + sum_list b"
  by (induction a b rule: list_induct2) (simp_all add: vadd_def algebra_simps)

lemma sum_list_slli: "sum_list (slli_epi32 v n) = 2 ^ n * sum_list v"
  by (induction v) (simp_all add: slli_epi32_def push_bit_eq_mult algebra_simps)

lemma sum_list_vmul_vadd: "length a = length b \<Longrightarrow> length b = length w \<Longrightarrow>
   sum_list (vmul (vadd a b) w) = sum_list (vmul a w) + sum_list (vmul b w)"
  by (induction a b w rule: list_induct3) (simp_all add: vadd_def vmul_def algebra_simps)

section \<open>The horizontal reductions\<close>

lemma finish_vec_chunk_128:
  "length v1 = 4 \<Longrightarrow> length v2 = 4 \<Longrightarrow>
   ADLER32_FINISH_VEC_CHUNK_128 s1 s2 v1 v2 = (s1 + sum_list (even_lanes v1), s2 + sum_list v2)"
  apply (drule length4E)+
  apply (clarsimp simp: ADLER32_FINISH_VEC_CHUNK_128_def Let_def vadd_def mm_shuffle_epi32_def
      mm_cvtsi128_si32_def)
  done

lemma finish_vec_chunk_256:
  "length v1 = 8 \<Longrightarrow> length v2 = 8 \<Longrightarrow>
   ADLER32_FINISH_VEC_CHUNK_256 s1 s2 v1 v2 = (s1 + sum_list (even_lanes v1), s2 + sum_list v2)"
  apply (drule length8E)+
  apply (clarsimp simp: ADLER32_FINISH_VEC_CHUNK_256_def finish_vec_chunk_128 Let_def vadd_def
      mm256_extracti128_si256_def)
  done





section \<open>The AVX2 kernel\<close>

lemma chunk_bytes_append:
  "p \<le> q \<Longrightarrow> q \<le> e \<Longrightarrow> chunk_bytes m p e = chunk_bytes m p q @ chunk_bytes m q e"
  using upt_add_eq_append[of p q "e - q"] by (simp add: chunk_bytes_def)

lemma take_chunk_bytes: "p + n \<le> e \<Longrightarrow> take n (chunk_bytes m p e) = chunk_bytes m p (p + n)"
  by (simp add: chunk_bytes_def take_map)


lemma mm_loadu_si128_chunk: "mm_loadu_si128 m a = chunk_bytes m a (a + 16)"
  by (simp add: mm_loadu_si128_def chunk_bytes_from_0)

lemma weighted_sum_desc:
  "weighted_sum seg = sum_list (map2 (*) (map ucast seg) (map of_nat (rev [1..<Suc (length seg)])))"
  by (induction seg) (simp_all add: weighted_sum_Cons weighted_sum_Nil)

lemma byte_sum_map: "sum_list (map ucast bs) = byte_sum bs"
  by (simp add: byte_sum_def)

lemma avx2_load:
  "mm256_cvtepu8_epi32 (mm_loadu_si128 m a) = map ucast (chunk_bytes m a (a + 8))"
  by (simp add: mm256_cvtepu8_epi32_def mm_loadu_si128_chunk take_chunk_bytes)

lemma chunk_bytes_32_blocks:
  "chunk_bytes m p (p + 32) =
     chunk_bytes m p (p + 8) @ chunk_bytes m (p + 8) (p + 16) @
     chunk_bytes m (p + 16) (p + 24) @ chunk_bytes m (p + 24) (p + 32)"
  by (simp add: chunk_bytes_append[of p "p + 8" "p + 32"]
      chunk_bytes_append[of "p + 8" "p + 16" "p + 32"]
      chunk_bytes_append[of "p + 16" "p + 24" "p + 32"])

lemma avx2_mults_desc:
  "avx2_mults_a @ avx2_mults_b @ avx2_mults_c @ avx2_mults_d = map of_nat (rev [1..<Suc 32])"
  by (simp add: avx2_mults_a_def avx2_mults_b_def avx2_mults_c_def avx2_mults_d_def upt_conv_Cons del: upt_Suc)

lemma length_avx2_mults:
  "length avx2_mults_a = 8" "length avx2_mults_b = 8" "length avx2_mults_c = 8"
  "length avx2_mults_d = 8"
  by (simp_all add: avx2_mults_a_def avx2_mults_b_def avx2_mults_c_def avx2_mults_d_def)

lemma avx2_body_unfold:
  "adler32_avx2_body m (p, st) =
     (p + 32,
      st\<lparr>v_s2_a := vadd (v_s2_a st) (v_s1_a st), v_s2_b := vadd (v_s2_b st) (v_s1_b st),
         v_s2_c := vadd (v_s2_c st) (v_s1_c st), v_s2_d := vadd (v_s2_d st) (v_s1_d st),
         v_s1_a := vadd (v_s1_a st) (map ucast (chunk_bytes m p (p + 8))),
         v_s1_b := vadd (v_s1_b st) (map ucast (chunk_bytes m (p + 8) (p + 16))),
         v_s1_c := vadd (v_s1_c st) (map ucast (chunk_bytes m (p + 16) (p + 24))),
         v_s1_d := vadd (v_s1_d st) (map ucast (chunk_bytes m (p + 24) (p + 32)))\<rparr>)"
  by (simp add: adler32_avx2_body_def Let_def avx2_load add.commute)

lemma sum_list_vmul_append:
  "length a = length u \<Longrightarrow> sum_list (vmul (a @ b) (u @ v)) = sum_list (vmul a u) + sum_list (vmul b v)"
  by (simp add: vmul_def)

lemma avx2_segment_weighted:
  "weighted_sum (chunk_bytes m p (p + 32)) =
   sum_list (vmul (map ucast (chunk_bytes m p (p + 8))) avx2_mults_a) +
   sum_list (vmul (map ucast (chunk_bytes m (p + 8) (p + 16))) avx2_mults_b) +
   sum_list (vmul (map ucast (chunk_bytes m (p + 16) (p + 24))) avx2_mults_c) +
   sum_list (vmul (map ucast (chunk_bytes m (p + 24) (p + 32))) avx2_mults_d)"
proof -
  have "weighted_sum (chunk_bytes m p (p + 32)) =
      sum_list (vmul (map ucast (chunk_bytes m p (p + 32)))
        (avx2_mults_a @ avx2_mults_b @ avx2_mults_c @ avx2_mults_d))"
    by (simp only: weighted_sum_desc[of "chunk_bytes m p (p + 32)"] length_chunk_bytes
        avx2_mults_desc vmul_def add_diff_cancel_left')
  also have "\<dots> = sum_list (vmul (map ucast (chunk_bytes m p (p + 8))) avx2_mults_a) +
   sum_list (vmul (map ucast (chunk_bytes m (p + 8) (p + 16))) avx2_mults_b) +
   sum_list (vmul (map ucast (chunk_bytes m (p + 16) (p + 24))) avx2_mults_c) +
   sum_list (vmul (map ucast (chunk_bytes m (p + 24) (p + 32))) avx2_mults_d)"
    by (simp add: chunk_bytes_32_blocks sum_list_vmul_append length_chunk_bytes
        length_avx2_mults)
  finally show ?thesis .
qed

lemma avx2_body_fst: "fst (adler32_avx2_body m (p, st)) = p + 32"
  by (simp add: avx2_body_unfold)

lemma avx2_body_lanes:
  "avx_lanes 8 st \<Longrightarrow> avx_lanes 8 (snd (adler32_avx2_body m (p, st)))"
  by (simp add: avx2_body_unfold avx_lanes_def length_vadd length_chunk_bytes)

lemma avx2_body_s2_total:
  "avx_lanes 8 st \<Longrightarrow>
   avx_s2_total (snd (adler32_avx2_body m (p, st))) = avx_s2_total st + avx_s1_total st"
  by (simp add: avx2_body_unfold avx_lanes_def avx_s2_total_def avx_s1_total_def sum_list_vadd)

lemma avx2_body_s1_total:
  "avx_lanes 8 st \<Longrightarrow>
   avx_s1_total (snd (adler32_avx2_body m (p, st))) =
     avx_s1_total st + byte_sum (chunk_bytes m p (p + 32))"
  by (simp add: avx2_body_unfold avx_lanes_def avx_s1_total_def
      sum_list_vadd chunk_bytes_32_blocks byte_sum_append byte_sum_map length_chunk_bytes)

lemma avx2_body_weighted:
  "avx_lanes 8 st \<Longrightarrow>
   avx2_weighted (snd (adler32_avx2_body m (p, st))) =
     avx2_weighted st + weighted_sum (chunk_bytes m p (p + 32))"
  by (simp add: avx2_segment_weighted avx2_body_unfold avx_lanes_def avx2_weighted_def
      sum_list_vmul_vadd length_chunk_bytes length_avx2_mults)


lemma iter_fst:
  fixes body :: "nat \<times> 's \<Rightarrow> nat \<times> 's"
  assumes "\<And>q st. fst (body (q, st)) = q + c"
  shows "fst ((body ^^ i) (p, st)) = p + c * i"
proof (induction i)
  case 0
  then show ?case by simp
next
  case (Suc i)
  have "fst (body ((body ^^ i) (p, st))) = fst ((body ^^ i) (p, st)) + c"
    using assms[of "fst ((body ^^ i) (p, st))" "snd ((body ^^ i) (p, st))"] by simp
  with Suc show ?case by simp
qed

lemma ptr_loop_exit:
  fixes body :: "nat \<times> 's \<Rightarrow> nat \<times> 's"
  assumes step: "\<And>q st. fst (body (q, st)) = q + c" and "0 < c" "0 < k"
  shows "do_while body (\<lambda>(q, st). q \<noteq> p + c * k) (p, st) = Some ((body ^^ k) (p, st))"
proof (rule do_while_exit)
  show "0 < k" by fact
  show "\<not> (case (body ^^ k) (p, st) of (q, st) \<Rightarrow> q \<noteq> p + c * k)"
    using iter_fst[of body c k p st, OF step] by (simp add: case_prod_beta)
  fix i assume "0 < i" "i < k"
  then show "case (body ^^ i) (p, st) of (q, st) \<Rightarrow> q \<noteq> p + c * k"
    using iter_fst[of body c i p st, OF step] \<open>0 < c\<close> by (simp add: case_prod_beta)
qed

lemma ptr_loop_never:
  fixes body :: "nat \<times> 's \<Rightarrow> nat \<times> 's"
  assumes step: "\<And>q st. fst (body (q, st)) = q + c" and "\<And>k. 0 < k \<Longrightarrow> e \<noteq> p + c * k"
  shows "do_while body (\<lambda>(q, st). q \<noteq> e) (p, st) = None"
proof (rule do_while_never)
  fix i :: nat assume "0 < i"
  then show "case (body ^^ i) (p, st) of (q, st) \<Rightarrow> q \<noteq> e"
    using iter_fst[of body c i p st, OF step] assms(2)[of i] by (simp add: case_prod_beta)
qed

lemma avx_lanes_zeroes: "avx_lanes n (avx_zeroes n)"
  by (simp add: avx_lanes_def avx_zeroes_def)

lemma sum_list_replicate_0: "sum_list (replicate n (0::'a::len word)) = 0"
  by (induction n) simp_all

lemma vmul_replicate_0: "sum_list (vmul (replicate n 0) w) = 0"
  by (induction n arbitrary: w) (auto simp: vmul_def split: list.splits, (case_tac w; simp)+)

lemma avx2_iter:
  "fst ((adler32_avx2_body m ^^ k) (p, avx_zeroes 8)) = p + 32 * k \<and>
   avx_lanes 8 (snd ((adler32_avx2_body m ^^ k) (p, avx_zeroes 8))) \<and>
   avx_s1_total (snd ((adler32_avx2_body m ^^ k) (p, avx_zeroes 8))) =
     byte_sum (chunk_bytes m p (p + 32 * k)) \<and>
   32 * avx_s2_total (snd ((adler32_avx2_body m ^^ k) (p, avx_zeroes 8))) +
     avx2_weighted (snd ((adler32_avx2_body m ^^ k) (p, avx_zeroes 8))) =
     weighted_sum (chunk_bytes m p (p + 32 * k))"
proof (induction k)
  case 0
  show ?case
    by (simp add: avx_lanes_zeroes)
       (simp add: avx_s1_total_def avx_s2_total_def avx2_weighted_def avx_zeroes_def
         sum_list_replicate_0 vmul_replicate_0 chunk_bytes_def byte_sum_def weighted_sum_def)
next
  case (Suc k)
  obtain q st where qst: "(adler32_avx2_body m ^^ k) (p, avx_zeroes 8) = (q, st)"
    by (cases "(adler32_avx2_body m ^^ k) (p, avx_zeroes 8)")
  from Suc qst have q: "q = p + 32 * k" and lanes: "avx_lanes 8 st"
    and s1: "avx_s1_total st = byte_sum (chunk_bytes m p (p + 32 * k))"
    and s2: "32 * avx_s2_total st + avx2_weighted st = weighted_sum (chunk_bytes m p (p + 32 * k))"
    by simp_all
  have e: "p + 32 * Suc k = p + 32 * k + 32" by simp
  have split: "chunk_bytes m p (p + 32 * k + 32) =
      chunk_bytes m p (p + 32 * k) @ chunk_bytes m (p + 32 * k) (p + 32 * k + 32)"
    by (rule chunk_bytes_append) simp_all
  have "32 * avx_s2_total (snd (adler32_avx2_body m (q, st))) +
        avx2_weighted (snd (adler32_avx2_body m (q, st))) =
        weighted_sum (chunk_bytes m p (p + 32 * k)) + 32 * byte_sum (chunk_bytes m p (p + 32 * k)) +
        weighted_sum (chunk_bytes m q (q + 32))"
    using s1 s2 by (simp add: avx2_body_s2_total[OF lanes] avx2_body_weighted[OF lanes] algebra_simps)
  then have w: "32 * avx_s2_total (snd (adler32_avx2_body m (q, st))) +
        avx2_weighted (snd (adler32_avx2_body m (q, st))) =
        weighted_sum (chunk_bytes m p (p + 32 * Suc k))"
    by (simp only: e split weighted_sum_append q length_chunk_bytes add_diff_cancel_left' of_nat_numeral)
  have b: "avx_s1_total (snd (adler32_avx2_body m (q, st))) = byte_sum (chunk_bytes m p (p + 32 * Suc k))"
    by (simp only: e split byte_sum_append avx2_body_s1_total[OF lanes] s1 q)
  have f: "fst (adler32_avx2_body m (q, st)) = p + 32 * Suc k"
    using avx2_body_fst[of m q st] q by simp
  show ?case
    using w b avx2_body_lanes[OF lanes, of m q] f
    by (simp add: qst del: mult_Suc_right)
qed

lemma avx2_finish_snd:
  "avx_lanes 8 st \<Longrightarrow>
   snd (adler32_avx2_finish s1 s2 st) = s2 + (32 * avx_s2_total st + avx2_weighted st)"
  by (simp add: adler32_avx2_finish_def Let_def avx_lanes_def finish_vec_chunk_256 length_vadd
      length_vmul length_slli length_avx2_mults sum_list_vadd sum_list_slli avx_s2_total_def
      avx2_weighted_def algebra_simps)

lemma avx2_chunk_result:
  assumes "0 < k"
  shows "adler32_avx2_chunk m p (p + 32 * k) s1 s2 =
     Some (adler32_avx2_finish s1 s2 (snd ((adler32_avx2_body m ^^ k) (p, avx_zeroes 8))))"
  using ptr_loop_exit[of "adler32_avx2_body m" 32 k p "avx_zeroes 8", OF avx2_body_fst _ assms]
  by (simp add: adler32_avx2_chunk_def case_prod_beta)

lemma avx2_chunk_s2:
  assumes "0 < k"
  shows "\<exists>s1'. adler32_avx2_chunk m p (p + 32 * k) s1 s2 =
     Some (s1', s2 + weighted_sum (chunk_bytes m p (p + 32 * k)))"
proof -
  let ?st = "snd ((adler32_avx2_body m ^^ k) (p, avx_zeroes 8))"
  have "snd (adler32_avx2_finish s1 s2 ?st) = s2 + weighted_sum (chunk_bytes m p (p + 32 * k))"
    using avx2_iter[where m = m and k = k and p = p] by (simp add: avx2_finish_snd)
  then show ?thesis
    by (simp add: avx2_chunk_result[OF assms]) (metis prod.collapse)
qed

section \<open>The SSE2 kernel\<close>

lemma unat_u8_le: "unat (b :: u8) \<le> 255"
  using unsigned_less[of b, where 'a = nat] by simp

lemma unat_ucast_u8_u16: "unat (ucast (b :: u8) :: u16) = unat b"
  using unat_u8_le[of b] by (simp add: unsigned_ucast_eq take_bit_nat_eq_self)


lemma ucast_u8_u16_u32: "(ucast (ucast (b :: u8) :: u16) :: u32) = ucast b"
  by (metis of_nat_unat unat_ucast_u8_u16)




lemma sint_u16_small:
  assumes "unat (x :: u16) < 32768"
  shows "sint x = int (unat x)"
proof -
  have "int (unat x) < int 32768" using assms by (rule of_nat_less_iff[THEN iffD2])
  then have "uint x < 2 ^ 15" by simp
  moreover have "- (2 ^ 15) \<le> uint x"
    by (rule order_trans[of _ 0]) simp_all
  ultimately have "signed_take_bit 15 (uint x) = uint x"
    by (rule signed_take_bit_int_eq_self[rotated])
  then show ?thesis by (simp add: sint_uint)
qed

lemma madd_product:
  assumes "unat (a :: u16) < 32768" "unat (b :: u16) < 32768"
  shows "(word_of_int (sint a * sint b) :: u32) = ucast a * ucast b"
  using assms by (simp add: sint_u16_small)




































section \<open>The AVX-512BW kernel and the effect of a kernel on the counters\<close>


















section \<open>The dispatcher\<close>

lemma all_adler32_func:
  "(\<forall>k. P k) \<longleftrightarrow> P adler32_avx512bw \<and> P adler32_avx2 \<and> P adler32_sse2"
  by (metis adler32_func.exhaust)

text \<open>
  Claim C6. For every capability bitset (and every build), \<open>arch_select_adler32_func\<close>
  returns a kernel exactly when that kernel is compiled in (its \<open>DISPATCH_*\<close> macro is
  defined), its feature bit is set in the bitset, and no more capable kernel is both compiled
  in and present: AVX-512BW is tested before AVX2, and AVX2 before SSE2.
\<close>

theorem arch_select_most_capable_first:
  "arch_select_adler32_func cfg msk features = Some k \<longleftrightarrow>
     compiled_in cfg k \<and> reported_present msk features k \<and>
     (\<forall>k'. capability_rank k < capability_rank k' \<longrightarrow>
        \<not> (compiled_in cfg k' \<and> reported_present msk features k'))"
  by (cases k) (auto simp: arch_select_adler32_func_def all_adler32_func)

theorem arch_select_most_capable_first_witness:
  "arch_select_adler32_func
     \<lparr>DISPATCH_AVX512BW = False, DISPATCH_AVX2 = True, DISPATCH_SSE2 = True\<rparr>
     \<lparr>X86_CPU_FEATURE_AVX512BW = 0x20, X86_CPU_FEATURE_AVX2 = 0x08, X86_CPU_FEATURE_SSE2 = 0x01\<rparr>
     0x29 = Some adler32_avx2"
  using arch_select_most_capable_first [of
      "\<lparr>DISPATCH_AVX512BW = False, DISPATCH_AVX2 = True, DISPATCH_SSE2 = True\<rparr>"
      "\<lparr>X86_CPU_FEATURE_AVX512BW = 0x20, X86_CPU_FEATURE_AVX2 = 0x08, X86_CPU_FEATURE_SSE2 = 0x01\<rparr>"
      "0x29" adler32_avx2]
  by (simp add: all_adler32_func)

text \<open>
  Claim C7. The dispatcher is a function of the capability bitset: it has a result for
  every bitset, equal bitsets give equal results, and the result is \<open>NULL\<close> (here \<open>None\<close>)
  exactly when no compiled-in kernel has its feature bit set.
\<close>

theorem arch_select_total_and_null:
  "(\<exists>r. arch_select_adler32_func cfg msk features = r) \<and>
   (features = features' \<longrightarrow>
      arch_select_adler32_func cfg msk features = arch_select_adler32_func cfg msk features') \<and>
   (arch_select_adler32_func cfg msk features = None \<longleftrightarrow>
      (\<forall>k. \<not> (compiled_in cfg k \<and> reported_present msk features k)))"
  by (auto simp: arch_select_adler32_func_def all_adler32_func)

theorem arch_select_total_and_null_witness:
  "arch_select_adler32_func
     \<lparr>DISPATCH_AVX512BW = True, DISPATCH_AVX2 = True, DISPATCH_SSE2 = False\<rparr>
     \<lparr>X86_CPU_FEATURE_AVX512BW = 0x20, X86_CPU_FEATURE_AVX2 = 0x08, X86_CPU_FEATURE_SSE2 = 0x01\<rparr>
     0x01 = None"
  using arch_select_total_and_null [of
      "\<lparr>DISPATCH_AVX512BW = True, DISPATCH_AVX2 = True, DISPATCH_SSE2 = False\<rparr>"
      "\<lparr>X86_CPU_FEATURE_AVX512BW = 0x20, X86_CPU_FEATURE_AVX2 = 0x08, X86_CPU_FEATURE_SSE2 = 0x01\<rparr>"
      "0x01" "0x01"]
  by (simp add: all_adler32_func)

end
